theory Spec2Isabelle
  imports Main "HOL-Library.Sublist"
begin

section \<open>Documents, schemas and requests\<close>

text \<open>
  The API has six resource collections, each served by one route file with the same six
  handlers. A stored document has a store identifier (an ObjectId, here a natural number)
  and a finite set of fields. The version key that the object mapper adds to every
  document is left out: no handler reads it.
\<close>

datatype kind = Users | Teachers | Students | ProfSaude | Events | Appointments

datatype ftype = TString | TDate

text \<open>A stored field holds a string, a date (milliseconds since the epoch, UTC) or null.\<close>

datatype fval = VStr string | VDate int | VNull

text \<open>
  A request body is a JSON object. The model covers bodies whose values are JSON strings
  or null; a \<^typ>\<open>char\<close> stands for one character of the text.
\<close>

datatype jv = JStr string | JNull

type_synonym payload = "string \<rightharpoonup> jv"

datatype field = Field (fname: string) (ftyp: ftype) (required: bool) (dflt: "fval option")

record doc =
  oid :: nat
  flds :: "string \<rightharpoonup> fval"

text \<open>The schemas, as the six route files declare them.\<close>

fun schema :: "kind \<Rightarrow> field list" where
  "schema Users =
     [Field ''nome'' TString False None, Field ''email'' TString False None,
      Field ''user'' TString False None, Field ''pwd'' TString False None,
      Field ''level'' TString False None, Field ''status'' TString False None]"
| "schema Teachers =
     [Field ''name'' TString False None, Field ''subject'' TString False None,
      Field ''phone_number'' TString False None, Field ''email'' TString False None,
      Field ''status'' TString False None]"
| "schema Students =
     [Field ''name'' TString False None, Field ''age'' TString False None,
      Field ''parents'' TString False None, Field ''phone_number'' TString False None,
      Field ''special_needs'' TString False None,
      Field ''status'' TString False (Some (VStr ''on''))]"
| "schema ProfSaude =
     [Field ''name'' TString True None, Field ''specialty'' TString True None,
      Field ''contact'' TString True None, Field ''phone_number'' TString True None,
      Field ''status'' TString True None]"
| "schema Events =
     [Field ''description'' TString False None, Field ''comment'' TString False None,
      Field ''date'' TDate False None]"
| "schema Appointments =
     [Field ''specialty'' TString False None, Field ''comments'' TString False None,
      Field ''date'' TDate False None, Field ''student'' TString False None,
      Field ''professional'' TString False None]"

text \<open>The query parameter of \<open>GET /search\<close>, which is also the field it searches.\<close>

fun search_param :: "kind \<Rightarrow> string" where
  "search_param Users = ''nome''"
| "search_param Teachers = ''name''"
| "search_param Students = ''name''"
| "search_param ProfSaude = ''name''"
| "search_param Events = ''date''"
| "search_param Appointments = ''date''"

fun name_kind :: "kind \<Rightarrow> bool" where
  "name_kind Events = False"
| "name_kind Appointments = False"
| "name_kind k = True"

text \<open>
  What the handlers send back: a status and a JSON body. The error texts of the source
  are kept as constructors; \<open>StoreMsg e\<close> is the body \<open>{ error: err.message }\<close> of a
  \<open>catch\<close> block.
\<close>

datatype store_error = CastError | ValidationError | DuplicateKey | RegexError

datatype msg = ParamRequired | NoneFound | NotFoundMsg | StoreMsg store_error

datatype body = JsonError msg | JsonDocs "doc list" | JsonDoc doc | NoBody

datatype response = Response (status: nat) (body: body)

section \<open>The runtime outside the repository\<close>

text \<open>
  The handlers call the object mapper, the database, the date library and the JavaScript
  runtime. The parts of those that the model does not compute are parameters:
  \<^item> \<open>cast_oid\<close>: the cast of a path segment to an ObjectId (\<open>None\<close>: the cast throws);
  \<^item> \<open>cast_date\<close>: the cast of a JSON string to a value of a Date field (\<open>None\<close>: it throws);
  \<^item> \<open>other_date\<close>: what \<open>new Date(s)\<close> gives for a string outside the date-time forms
    computed below (\<open>None\<close>: Invalid Date);
  \<^item> \<open>other_regex\<close>: the case-insensitive search of a pattern outside the fragment
    computed below (\<open>None\<close>: the database rejects the pattern);
  \<^item> \<open>other_fold\<close>: the case folding of the database on characters outside ASCII;
  \<^item> \<open>local_midnight\<close>: the instant at which a civil day (counted from 1970-01-01)
    starts in the server's time zone.
\<close>

record env =
  cast_oid :: "string \<Rightarrow> nat option"
  cast_date :: "string \<Rightarrow> fval option"
  other_date :: "string \<Rightarrow> int option"
  other_regex :: "string \<Rightarrow> (string \<Rightarrow> bool) option"
  other_fold :: "char \<Rightarrow> char"
  local_midnight :: "int \<Rightarrow> int"

subsection \<open>Dates\<close>

definition digit_val :: "char \<Rightarrow> int option" where
  "digit_val c = map_of (zip ''0123456789'' [0, 1, 2, 3, 4, 5, 6, 7, 8, 9]) c"

fun digits_val :: "int \<Rightarrow> string \<Rightarrow> int option" where
  "digits_val acc [] = Some acc"
| "digits_val acc (c # cs) =
     (case digit_val c of None \<Rightarrow> None | Some d \<Rightarrow> digits_val (acc * 10 + d) cs)"

definition is_leap :: "int \<Rightarrow> bool" where
  "is_leap y = (y mod 4 = 0 \<and> (y mod 100 \<noteq> 0 \<or> y mod 400 = 0))"

definition days_in_month :: "int \<Rightarrow> int \<Rightarrow> int" where
  "days_in_month y m =
     (if m = 2 then (if is_leap y then 29 else 28)
      else if m = 4 \<or> m = 6 \<or> m = 9 \<or> m = 11 then 30 else 31)"

text \<open>The day number of a civil date, counted from 1970-01-01.\<close>

definition days_from_civil :: "int \<Rightarrow> int \<Rightarrow> int \<Rightarrow> int" where
  "days_from_civil y m d =
     (let y' = (if m \<le> 2 then y - 1 else y);
          era = y' div 400;
          yoe = y' - era * 400;
          doy = (153 * (if m > 2 then m - 3 else m + 9) + 2) div 5 + d - 1;
          doe = yoe * 365 + yoe div 4 - yoe div 100 + doy
      in era * 146097 + doe - 719468)"

definition utc_ms :: "int \<Rightarrow> int \<Rightarrow> int \<Rightarrow> int \<Rightarrow> int \<Rightarrow> int \<Rightarrow> int \<Rightarrow> int" where
  "utc_ms y m d hh mi ss ms =
     days_from_civil y m d * 86400000 + ((hh * 60 + mi) * 60 + ss) * 1000 + ms"

text \<open>
  The date-only forms of the ECMAScript date-time string format: \<open>YYYY\<close>, \<open>YYYY-MM\<close>
  and \<open>YYYY-MM-DD\<close>, with every element in range.
\<close>

definition ymd_ok :: "int \<Rightarrow> int \<Rightarrow> int \<Rightarrow> (int \<times> int \<times> int) option" where
  "ymd_ok y m d =
     (if 1 \<le> m \<and> m \<le> 12 \<and> 1 \<le> d \<and> d \<le> days_in_month y m then Some (y, m, d) else None)"

definition ymd_strict :: "string \<Rightarrow> (int \<times> int \<times> int) option" where
  "ymd_strict s =
     (if length s = 10 \<and> s ! 4 = CHR ''-'' \<and> s ! 7 = CHR ''-'' then
        (case (digits_val 0 (take 4 s), digits_val 0 (take 2 (drop 5 s)),
               digits_val 0 (drop 8 s)) of
           (Some y, Some m, Some d) \<Rightarrow> ymd_ok y m d
         | _ \<Rightarrow> None)
      else None)"

definition iso_date_only :: "string \<Rightarrow> (int \<times> int \<times> int) option" where
  "iso_date_only s =
     (if length s = 4 then
        (case digits_val 0 s of Some y \<Rightarrow> Some (y, 1, 1) | None \<Rightarrow> None)
      else if length s = 7 \<and> s ! 4 = CHR ''-'' then
        (case (digits_val 0 (take 4 s), digits_val 0 (drop 5 s)) of
           (Some y, Some m) \<Rightarrow> ymd_ok y m 1
         | _ \<Rightarrow> None)
      else ymd_strict s)"

text \<open>The time form \<open>HH:mm:ssZ\<close>, in milliseconds from the start of the day.\<close>

definition iso_time_z :: "string \<Rightarrow> int option" where
  "iso_time_z s =
     (if length s = 9 \<and> s ! 2 = CHR '':'' \<and> s ! 5 = CHR '':'' \<and> s ! 8 = CHR ''Z'' then
        (case (digits_val 0 (take 2 s), digits_val 0 (take 2 (drop 3 s)),
               digits_val 0 (take 2 (drop 6 s))) of
           (Some hh, Some mi, Some ss) \<Rightarrow>
             (if hh \<le> 23 \<and> mi \<le> 59 \<and> ss \<le> 59
              then Some (((hh * 60 + mi) * 60 + ss) * 1000) else None)
         | _ \<Rightarrow> None)
      else None)"

definition iso_parse :: "string \<Rightarrow> int option" where
  "iso_parse s =
     (let d = takeWhile (\<lambda>c. c \<noteq> CHR ''T'') s;
          t = dropWhile (\<lambda>c. c \<noteq> CHR ''T'') s
      in case iso_date_only d of
           None \<Rightarrow> None
         | Some (y, m, dd) \<Rightarrow>
             (if t = [] then Some (days_from_civil y m dd * 86400000)
              else (case iso_time_z (tl t) of
                      None \<Rightarrow> None
                    | Some ms \<Rightarrow> Some (days_from_civil y m dd * 86400000 + ms))))"

text \<open>\<open>new Date(s)\<close>: the time value, or \<open>None\<close> for Invalid Date.\<close>

definition new_Date :: "env \<Rightarrow> string \<Rightarrow> int option" where
  "new_Date e s = (case iso_parse s of Some t \<Rightarrow> Some t | None \<Rightarrow> other_date e s)"

text \<open>
  \<open>moment(s, 'YYYY-MM-DD', true).isValid()\<close>: strict parsing takes exactly four, two
  and two digits around the two hyphens and checks the month and the day of the month.
\<close>

definition moment_strict_valid :: "string \<Rightarrow> bool" where
  "moment_strict_valid s = (ymd_strict s \<noteq> None)"

text \<open>
  \<open>moment(s).startOf('day').toDate()\<close> and \<open>moment(s).endOf('day').toDate()\<close> for a
  string that passed the strict check: the start of that local day, and one millisecond
  before the start of the next.
\<close>

definition moment_startOf_day :: "env \<Rightarrow> string \<Rightarrow> int option" where
  "moment_startOf_day e s =
     (case ymd_strict s of
        None \<Rightarrow> None
      | Some (y, m, d) \<Rightarrow> Some (local_midnight e (days_from_civil y m d)))"

definition moment_endOf_day :: "env \<Rightarrow> string \<Rightarrow> int option" where
  "moment_endOf_day e s =
     (case ymd_strict s of
        None \<Rightarrow> None
      | Some (y, m, d) \<Rightarrow> Some (local_midnight e (days_from_civil y m d + 1) - 1))"

subsection \<open>Regular expressions\<close>

text \<open>
  The name searches hand the query value to the database as the pattern of a
  case-insensitive regular expression. The fragment computed here: a sequence of atoms,
  each a dot or a character that is neither a metacharacter nor the null character, each
  optionally followed by a star. Every other pattern is left to \<open>other_regex\<close>. A dot stands for any character but
  the line feed; a literal character stands for the characters equal to it up to case,
  where ASCII letters are folded to lower case and every other character as the database
  folds it.
\<close>

datatype atom = AnyChar | Lit char

datatype item = Once atom | Star atom

definition is_meta :: "char \<Rightarrow> bool" where
  "is_meta c = (c \<in> set (CHR 0x5C # ''^$.[]|()?*+{}''))"

definition to_lower :: "char \<Rightarrow> char" where
  "to_lower c =
     (case map_of (zip ''ABCDEFGHIJKLMNOPQRSTUVWXYZ'' ''abcdefghijklmnopqrstuvwxyz'') c of
        Some l \<Rightarrow> l
      | None \<Rightarrow> c)"

definition fold_case :: "env \<Rightarrow> char \<Rightarrow> char" where
  "fold_case e c = (if of_char c < (128 :: nat) then to_lower c else other_fold e c)"

definition atom_of :: "char \<Rightarrow> atom option" where
  "atom_of c =
     (if c = CHR ''.'' then Some AnyChar
      else if is_meta c \<or> c = CHR 0x00 then None
      else Some (Lit c))"

fun parse_rx :: "string \<Rightarrow> item list option" where
  "parse_rx [] = Some []"
| "parse_rx (c # cs) =
     (case atom_of c of
        None \<Rightarrow> None
      | Some a \<Rightarrow>
          (case cs of
             [] \<Rightarrow> Some [Once a]
           | c' # cs' \<Rightarrow>
               (if c' = CHR ''*'' then map_option (Cons (Star a)) (parse_rx cs')
                else map_option (Cons (Once a)) (parse_rx cs))))"

fun atom_ok :: "env \<Rightarrow> atom \<Rightarrow> char \<Rightarrow> bool" where
  "atom_ok e AnyChar c = (c \<noteq> CHR 0x0A)"
| "atom_ok e (Lit a) c = (fold_case e a = fold_case e c)"

fun match_here :: "env \<Rightarrow> item list \<Rightarrow> string \<Rightarrow> bool" where
  "match_here e [] s = True"
| "match_here e (Once a # r) [] = False"
| "match_here e (Once a # r) (c # s) = (atom_ok e a c \<and> match_here e r s)"
| "match_here e (Star a # r) [] = match_here e r []"
| "match_here e (Star a # r) (c # s) =
     (match_here e r (c # s) \<or> (atom_ok e a c \<and> match_here e (Star a # r) s))"

fun rx_search :: "env \<Rightarrow> item list \<Rightarrow> string \<Rightarrow> bool" where
  "rx_search e r [] = match_here e r []"
| "rx_search e r (c # s) = (match_here e r (c # s) \<or> rx_search e r s)"

text \<open>The compiled pattern, or \<open>None\<close> when the database rejects it.\<close>

definition regex_i :: "env \<Rightarrow> string \<Rightarrow> (string \<Rightarrow> bool) option" where
  "regex_i e pat =
     (case parse_rx pat of Some r \<Rightarrow> Some (rx_search e r) | None \<Rightarrow> other_regex e pat)"

section \<open>The object mapper and the store\<close>

text \<open>
  One collection is a list of documents. The database keeps identifiers unique within a
  collection; theorems that need it assume \<open>distinct (map oid st)\<close>. The store is taken
  to be reachable: the only failures are the ones the mapper and the database raise on
  the request itself.
\<close>

text \<open>
  The cast of a body value to the type of its schema path. Keys outside the schema are
  dropped (strict mode); the identifier path is not modelled as a body key.
\<close>

definition cast_field :: "env \<Rightarrow> ftype \<Rightarrow> jv \<Rightarrow> fval option" where
  "cast_field e t v =
     (case v of
        JNull \<Rightarrow> Some VNull
      | JStr s \<Rightarrow> (case t of TString \<Rightarrow> Some (VStr s) | TDate \<Rightarrow> cast_date e s))"

definition cast_failed :: "env \<Rightarrow> field list \<Rightarrow> payload \<Rightarrow> bool" where
  "cast_failed e sch p =
     list_ex (\<lambda>f. case p (fname f) of
                     None \<Rightarrow> False
                   | Some v \<Rightarrow> cast_field e (ftyp f) v = None) sch"

text \<open>\<open>new Model(body)\<close>: the cast values, and the declared default where the body is silent.\<close>

definition doc_fields :: "env \<Rightarrow> field list \<Rightarrow> payload \<Rightarrow> (string \<rightharpoonup> fval)" where
  "doc_fields e sch p n =
     (case find (\<lambda>f. fname f = n) sch of
        None \<Rightarrow> None
      | Some f \<Rightarrow> (case p n of None \<Rightarrow> dflt f | Some v \<Rightarrow> cast_field e (ftyp f) v))"

text \<open>The \<open>required\<close> validator of a path: absent, null and the empty string fail.\<close>

definition required_missing :: "field list \<Rightarrow> (string \<rightharpoonup> fval) \<Rightarrow> bool" where
  "required_missing sch fl =
     list_ex (\<lambda>f. required f \<and>
                (case fl (fname f) of
                   None \<Rightarrow> True
                 | Some VNull \<Rightarrow> True
                 | Some (VStr s) \<Rightarrow> s = []
                 | Some (VDate t) \<Rightarrow> False)) sch"

text \<open>
  \<open>doc.save()\<close> of a new document whose generated identifier is \<open>g\<close>: validation, then the
  insert, which the unique index on the identifier can refuse.
\<close>

definition save :: "env \<Rightarrow> kind \<Rightarrow> nat \<Rightarrow> payload \<Rightarrow> doc list \<Rightarrow> store_error + (doc \<times> doc list)" where
  "save e k g p st =
     (let fl = doc_fields e (schema k) p in
      if cast_failed e (schema k) p \<or> required_missing (schema k) fl then Inl ValidationError
      else if g \<in> oid ` set st then Inl DuplicateKey
      else (let d = \<lparr>oid = g, flds = fl\<rparr> in Inr (d, st @ [d])))"

text \<open>
  A document read from the collection is handed to the handler as a document of the
  model: every path of the schema that the stored record lacks and that declares a
  default carries the default. The stored record itself is not changed by the read.
  Stored values are taken to be of the type of their path.
\<close>

definition hydrate :: "kind \<Rightarrow> doc \<Rightarrow> doc" where
  "hydrate k d =
     d\<lparr>flds := (\<lambda>n. case flds d n of
                         Some v \<Rightarrow> Some v
                       | None \<Rightarrow>
                           (case find (\<lambda>f. fname f = n) (schema k) of
                              None \<Rightarrow> None
                            | Some f \<Rightarrow> dflt f))\<rparr>"

definition findById :: "env \<Rightarrow> kind \<Rightarrow> string \<Rightarrow> doc list \<Rightarrow> store_error + doc option" where
  "findById e k s st =
     (case cast_oid e s of
        None \<Rightarrow> Inl CastError
      | Some i \<Rightarrow> Inr (map_option (hydrate k) (find (\<lambda>d. oid d = i) st)))"

fun replace_first :: "nat \<Rightarrow> doc \<Rightarrow> doc list \<Rightarrow> doc list" where
  "replace_first i d' [] = []"
| "replace_first i d' (x # xs) = (if oid x = i then d' # xs else x # replace_first i d' xs)"

fun delete_first :: "nat \<Rightarrow> doc list \<Rightarrow> doc list" where
  "delete_first i [] = []"
| "delete_first i (x # xs) = (if oid x = i then xs else x # delete_first i xs)"

text \<open>The \<open>$set\<close> of the cast body on the fields of a document.\<close>

definition apply_set :: "env \<Rightarrow> field list \<Rightarrow> payload \<Rightarrow> (string \<rightharpoonup> fval) \<Rightarrow> (string \<rightharpoonup> fval)" where
  "apply_set e sch p fl n =
     (case find (\<lambda>f. fname f = n) sch of
        None \<Rightarrow> fl n
      | Some f \<Rightarrow> (case p n of None \<Rightarrow> fl n | Some v \<Rightarrow> cast_field e (ftyp f) v))"

text \<open>
  \<open>Model.findByIdAndUpdate(id, body, { new: true })\<close>: the identifier and the body are
  cast before the database is asked; the result is the document read after the update,
  or null when no document has the identifier. Validators do not run on updates.
\<close>

definition findByIdAndUpdate ::
  "env \<Rightarrow> kind \<Rightarrow> string \<Rightarrow> payload \<Rightarrow> doc list \<Rightarrow> store_error + (doc option \<times> doc list)" where
  "findByIdAndUpdate e k s p st =
     (case cast_oid e s of
        None \<Rightarrow> Inl CastError
      | Some i \<Rightarrow>
          (if cast_failed e (schema k) p then Inl CastError
           else (case find (\<lambda>d. oid d = i) st of
                   None \<Rightarrow> Inr (None, st)
                 | Some d \<Rightarrow>
                     (let d' = d\<lparr>flds := apply_set e (schema k) p (flds d)\<rparr>
                      in Inr (Some (hydrate k d'), replace_first i d' st)))))"

text \<open>
  \<open>Model.findByIdAndDelete(id)\<close>: the handler only tests the result for null, so the
  removed record is returned as stored.
\<close>

definition findByIdAndDelete ::
  "env \<Rightarrow> string \<Rightarrow> doc list \<Rightarrow> store_error + (doc option \<times> doc list)" where
  "findByIdAndDelete e s st =
     (case cast_oid e s of
        None \<Rightarrow> Inl CastError
      | Some i \<Rightarrow>
          (case find (\<lambda>d. oid d = i) st of
             None \<Rightarrow> Inr (None, st)
           | Some d \<Rightarrow> Inr (Some d, delete_first i st)))"

text \<open>\<open>Model.find({ f: { $regex: pat, $options: 'i' } })\<close>: only string values can match.\<close>

definition find_regex ::
  "env \<Rightarrow> kind \<Rightarrow> string \<Rightarrow> string \<Rightarrow> doc list \<Rightarrow> store_error + doc list" where
  "find_regex e k f pat st =
     (case regex_i e pat of
        None \<Rightarrow> Inl RegexError
      | Some m \<Rightarrow>
          Inr (map (hydrate k)
                 (filter (\<lambda>d. case flds d f of Some (VStr s) \<Rightarrow> m s | _ \<Rightarrow> False) st)))"

text \<open>
  \<open>Model.find({ f: { $gte: lo, $lt: hi } })\<close>: the mapper refuses a bound that is an
  Invalid Date; only date values can match.
\<close>

definition find_range ::
  "kind \<Rightarrow> string \<Rightarrow> int option \<Rightarrow> int option \<Rightarrow> doc list \<Rightarrow> store_error + doc list" where
  "find_range k f lo hi st =
     (case (lo, hi) of
        (Some a, Some b) \<Rightarrow>
          Inr (map (hydrate k)
                 (filter (\<lambda>d. case flds d f of
                                Some (VDate t) \<Rightarrow> a \<le> t \<and> t < b
                              | _ \<Rightarrow> False) st))
      | _ \<Rightarrow> Inl CastError)"

section \<open>The route handlers\<close>

text \<open>The tail every search handler shares: 404 on an empty result, 400 from the catch block.\<close>

definition search_respond :: "store_error + doc list \<Rightarrow> response" where
  "search_respond r =
     (case r of
        Inl err \<Rightarrow> Response 400 (JsonError (StoreMsg err))
      | Inr ds \<Rightarrow>
          (if length ds = 0 then Response 404 (JsonError NoneFound)
           else Response 200 (JsonDocs ds)))"

text \<open>\<open>GET /search\<close> of users, teachers, students and health professionals.\<close>

definition name_search :: "env \<Rightarrow> kind \<Rightarrow> string option \<Rightarrow> doc list \<Rightarrow> response" where
  "name_search e k q st =
     (case q of
        None \<Rightarrow> Response 400 (JsonError ParamRequired)
      | Some name \<Rightarrow>
          (if name = [] then Response 400 (JsonError ParamRequired)
           else search_respond (find_regex e k (search_param k) name st)))"

text \<open>\<open>GET /events/search\<close>.\<close>

definition events_search :: "env \<Rightarrow> string option \<Rightarrow> doc list \<Rightarrow> response" where
  "events_search e q st =
     (case q of
        None \<Rightarrow> Response 400 (JsonError ParamRequired)
      | Some date \<Rightarrow>
          (if date = [] then Response 400 (JsonError ParamRequired)
           else search_respond
                  (find_range Events ''date'' (new_Date e (date @ ''T00:00:00Z''))
                     (new_Date e (date @ ''T23:59:59Z'')) st)))"

text \<open>\<open>GET /appointments/search\<close>.\<close>

definition appointments_search :: "env \<Rightarrow> string option \<Rightarrow> doc list \<Rightarrow> response" where
  "appointments_search e q st =
     (case q of
        None \<Rightarrow> Response 400 (JsonError ParamRequired)
      | Some date \<Rightarrow>
          (if date = [] \<or> \<not> moment_strict_valid date then Response 400 (JsonError ParamRequired)
           else search_respond
                  (find_range Appointments ''date'' (moment_startOf_day e date)
                     (moment_endOf_day e date) st)))"

fun get_search :: "env \<Rightarrow> kind \<Rightarrow> string option \<Rightarrow> doc list \<Rightarrow> response" where
  "get_search e Events q st = events_search e q st"
| "get_search e Appointments q st = appointments_search e q st"
| "get_search e k q st = name_search e k q st"

text \<open>\<open>GET /:id\<close>.\<close>

definition get_by_id :: "env \<Rightarrow> kind \<Rightarrow> string \<Rightarrow> doc list \<Rightarrow> response" where
  "get_by_id e k s st =
     (case findById e k s st of
        Inl err \<Rightarrow> Response 400 (JsonError (StoreMsg err))
      | Inr None \<Rightarrow> Response 404 (JsonError NotFoundMsg)
      | Inr (Some d) \<Rightarrow> Response 200 (JsonDoc d))"

text \<open>\<open>POST /\<close>; \<open>g\<close> is the identifier the mapper generates for the new document.\<close>

definition post_create :: "env \<Rightarrow> kind \<Rightarrow> nat \<Rightarrow> payload \<Rightarrow> doc list \<Rightarrow> response \<times> doc list" where
  "post_create e k g p st =
     (case save e k g p st of
        Inl err \<Rightarrow> (Response 400 (JsonError (StoreMsg err)), st)
      | Inr (d, st') \<Rightarrow> (Response 201 (JsonDoc d), st'))"

text \<open>\<open>PUT /:id\<close>.\<close>

definition put_update :: "env \<Rightarrow> kind \<Rightarrow> string \<Rightarrow> payload \<Rightarrow> doc list \<Rightarrow> response \<times> doc list" where
  "put_update e k s p st =
     (case findByIdAndUpdate e k s p st of
        Inl err \<Rightarrow> (Response 400 (JsonError (StoreMsg err)), st)
      | Inr (None, st') \<Rightarrow> (Response 404 (JsonError NotFoundMsg), st')
      | Inr (Some d, st') \<Rightarrow> (Response 200 (JsonDoc d), st'))"

text \<open>\<open>DELETE /:id\<close>.\<close>

definition delete_by_id :: "env \<Rightarrow> string \<Rightarrow> doc list \<Rightarrow> response \<times> doc list" where
  "delete_by_id e s st =
     (case findByIdAndDelete e s st of
        Inl err \<Rightarrow> (Response 400 (JsonError (StoreMsg err)), st)
      | Inr (None, st') \<Rightarrow> (Response 404 (JsonError NotFoundMsg), st')
      | Inr (Some d, st') \<Rightarrow> (Response 204 NoBody, st'))"

section \<open>Valid bodies\<close>


section \<open>The search contract, in the words of the specification\<close>

text \<open>
  The name contains the value up to letter case: the value, with its letters folded, is
  a contiguous part of the folded name.
\<close>

definition ci_contains :: "env \<Rightarrow> string \<Rightarrow> string \<Rightarrow> bool" where
  "ci_contains e n v = sublist (map (fold_case e) v) (map (fold_case e) n)"






text \<open>
  The strings a pattern of the fragment stands for: the denotation of the pattern as a
  set of strings, independent of how the database searches.
\<close>

fun lang :: "env \<Rightarrow> item list \<Rightarrow> string set" where
  "lang e [] = {[]}"
| "lang e (Once a # r) = {c # w | c w. atom_ok e a c \<and> w \<in> lang e r}"
| "lang e (Star a # r) = {u @ w | u w. list_all (atom_ok e a) u \<and> w \<in> lang e r}"

text \<open>
  A record matches a pattern of the fragment on a field: the field holds a string, and
  a contiguous part of that string is one of the strings the pattern stands for.
\<close>

definition lang_match :: "env \<Rightarrow> item list \<Rightarrow> string \<Rightarrow> doc \<Rightarrow> bool" where
  "lang_match e r f d =
     (case flds d f of Some (VStr n) \<Rightarrow> (\<exists>w \<in> lang e r. sublist w n) | _ \<Rightarrow> False)"

section \<open>A concrete runtime\<close>

text \<open>
  A runtime for evaluating the handlers on concrete requests. It answers as the real one
  where the evaluations below ask: identifiers of 24 hexadecimal digits are cast and
  \<open>abc\<close> is refused; the server's time zone is UTC; the date string \<open>abc\<close> is refused.
  On every other string outside the computed fragments it is a placeholder: it refuses
  the string, or leaves the character as it is, which the real runtime need not do. No
  evaluation below asks it such a question.
\<close>

definition hex_val :: "char \<Rightarrow> nat option" where
  "hex_val c =
     map_of (zip ''0123456789abcdefABCDEF''
       [0, 1, 2, 3, 4, 5, 6, 7, 8, 9, 10, 11, 12, 13, 14, 15, 10, 11, 12, 13, 14, 15]) c"

fun hex_num :: "nat \<Rightarrow> string \<Rightarrow> nat option" where
  "hex_num acc [] = Some acc"
| "hex_num acc (c # cs) =
     (case hex_val c of None \<Rightarrow> None | Some d \<Rightarrow> hex_num (acc * 16 + d) cs)"

definition hex24 :: "string \<Rightarrow> nat option" where
  "hex24 s = (if length s = 24 then hex_num 0 s else None)"

definition utc_env :: env where
  "utc_env =
     \<lparr>cast_oid = hex24,
      cast_date = (\<lambda>s. if s = [] then Some VNull else map_option VDate (iso_parse s)),
      other_date = (\<lambda>s. None),
      other_regex = (\<lambda>s. None),
      other_fold = (\<lambda>c. c),
      local_midnight = (\<lambda>n. n * 86400000)\<rparr>"

text \<open>Two stored events, for the concrete evaluations.\<close>

definition event_last_second :: doc where
  "event_last_second =
     \<lparr>oid = 1, flds = [''description'' \<mapsto> VStr ''Festa'',
                       ''date'' \<mapsto> VDate (utc_ms 2023 11 5 23 59 59 0)]\<rparr>"

definition event_first_of_month :: doc where
  "event_first_of_month =
     \<lparr>oid = 2, flds = [''description'' \<mapsto> VStr ''Reuniao'',
                       ''date'' \<mapsto> VDate (utc_ms 2023 11 1 10 0 0 0)]\<rparr>"


definition student_star :: doc where
  "student_star = \<lparr>oid = 4, flds = [''name'' \<mapsto> VStr ''ab*c'']\<rparr>"

text \<open>Stored teachers, for the concrete evaluations.\<close>

definition teacher_bia :: doc where
  "teacher_bia = \<lparr>oid = 2, flds = [''name'' \<mapsto> VStr ''Bia'', ''subject'' \<mapsto> VStr ''Art'']\<rparr>"

definition teacher_ana :: doc where
  "teacher_ana =
     \<lparr>oid = 1,
      flds = [''name'' \<mapsto> VStr ''Ana'', ''subject'' \<mapsto> VStr ''Math'', ''status'' \<mapsto> VStr ''on'']\<rparr>"

section \<open>Lookups in a collection with unique identifiers\<close>

lemma find_by_oid:
  "distinct (map oid st) \<Longrightarrow> d \<in> set st \<Longrightarrow> find (\<lambda>x. oid x = oid d) st = Some d"
  by (induction st) auto

lemma find_absent:
  "i \<notin> oid ` set st \<Longrightarrow> find (\<lambda>x. oid x = i) st = None"
  by (induction st) auto

lemma delete_first_remove1:
  "distinct (map oid st) \<Longrightarrow> d \<in> set st \<Longrightarrow> delete_first (oid d) st = remove1 d st"
  by (induction st) auto


lemma oid_remove1:
  assumes "distinct (map oid st)" and "d \<in> set st"
  shows "oid d \<notin> oid ` set (remove1 d st)"
proof
  assume "oid d \<in> oid ` set (remove1 d st)"
  then obtain d' where d': "d' \<in> set (remove1 d st)" and same: "oid d' = oid d"
    by auto
  from assms(1) have dist: "distinct st" and inj: "inj_on oid (set st)"
    by (simp_all add: distinct_map)
  from d' dist have "d' \<in> set st" and "d' \<noteq> d" by auto
  with inj same assms(2) show False by (auto dest: inj_onD)
qed

section \<open>Identifiers that are not well formed\<close>

text \<open>
  Claim C7. For every kind, \<open>GET /:id\<close>, \<open>PUT /:id\<close> and \<open>DELETE /:id\<close> with a path
  segment that the cast to an ObjectId refuses answer 400 with the JSON error body of
  the catch block, and the two writing handlers leave the collection as it was. Every
  handler is a total function of the request and the collection, so a response is always
  produced.
\<close>

theorem malformed_id_invalid_input:
  "cast_oid e s = None \<Longrightarrow>
     get_by_id e k s st = Response 400 (JsonError (StoreMsg CastError)) \<and>
     put_update e k s p st = (Response 400 (JsonError (StoreMsg CastError)), st) \<and>
     delete_by_id e s st = (Response 400 (JsonError (StoreMsg CastError)), st)"
  by (simp add: get_by_id_def put_update_def delete_by_id_def findById_def
      findByIdAndUpdate_def findByIdAndDelete_def)

lemma hex24_abc: "cast_oid utc_env ''abc'' = None"
  by (simp add: utc_env_def hex24_def)

theorem malformed_id_invalid_input_witness:
  "cast_oid utc_env ''abc'' = None \<and>
   get_by_id utc_env Users ''abc'' [\<lparr>oid = 1, flds = [''nome'' \<mapsto> VStr ''Caio'']\<rparr>]
     = Response 400 (JsonError (StoreMsg CastError)) \<and>
   put_update utc_env Users ''abc'' [''status'' \<mapsto> JStr ''off'']
       [\<lparr>oid = 1, flds = [''nome'' \<mapsto> VStr ''Caio'']\<rparr>]
     = (Response 400 (JsonError (StoreMsg CastError)),
        [\<lparr>oid = 1, flds = [''nome'' \<mapsto> VStr ''Caio'']\<rparr>]) \<and>
   delete_by_id utc_env ''abc'' [\<lparr>oid = 1, flds = [''nome'' \<mapsto> VStr ''Caio'']\<rparr>]
     = (Response 400 (JsonError (StoreMsg CastError)),
        [\<lparr>oid = 1, flds = [''nome'' \<mapsto> VStr ''Caio'']\<rparr>])"
  using malformed_id_invalid_input [OF hex24_abc] hex24_abc by simp

section \<open>Deleting a document, twice\<close>

text \<open>
  Claim C8. In a collection with unique identifiers, \<open>DELETE /:id\<close> on the identifier of
  a stored document \<open>d\<close> answers 204 with no body and removes exactly \<open>d\<close>; the same
  request again answers 404 and leaves the collection as the first delete left it.
\<close>

theorem delete_twice:
  "distinct (map oid st) \<Longrightarrow> d \<in> set st \<Longrightarrow> cast_oid e s = Some (oid d) \<Longrightarrow>
     delete_by_id e s st = (Response 204 NoBody, remove1 d st) \<and>
     set (remove1 d st) = set st - {d} \<and>
     delete_by_id e s (remove1 d st) = (Response 404 (JsonError NotFoundMsg), remove1 d st)"
proof -
  assume dist: "distinct (map oid st)" and mem: "d \<in> set st"
    and cast: "cast_oid e s = Some (oid d)"
  have first: "delete_by_id e s st = (Response 204 NoBody, remove1 d st)"
    using cast by (simp add: delete_by_id_def findByIdAndDelete_def
        find_by_oid [OF dist mem] delete_first_remove1 [OF dist mem])
  from dist have "distinct st" by (simp add: distinct_map)
  then have frame: "set (remove1 d st) = set st - {d}" by simp
  have "find (\<lambda>x. oid x = oid d) (remove1 d st) = None"
    by (rule find_absent) (rule oid_remove1 [OF dist mem])
  then have second:
    "delete_by_id e s (remove1 d st) = (Response 404 (JsonError NotFoundMsg), remove1 d st)"
    using cast by (simp add: delete_by_id_def findByIdAndDelete_def)
  from first frame second show ?thesis by simp
qed


lemma hex24_one: "cast_oid utc_env ''000000000000000000000001'' = Some 1"
  by (simp add: utc_env_def hex24_def hex_val_def)

theorem delete_twice_witness:
  "delete_by_id utc_env ''000000000000000000000001''
     [\<lparr>oid = 1, flds = [''name'' \<mapsto> VStr ''Bingo Heeler'']\<rparr>,
      \<lparr>oid = 2, flds = [''name'' \<mapsto> VStr ''Bluey Heeler'']\<rparr>]
     = (Response 204 NoBody, [\<lparr>oid = 2, flds = [''name'' \<mapsto> VStr ''Bluey Heeler'']\<rparr>]) \<and>
   delete_by_id utc_env ''000000000000000000000001''
     [\<lparr>oid = 2, flds = [''name'' \<mapsto> VStr ''Bluey Heeler'']\<rparr>]
     = (Response 404 (JsonError NotFoundMsg),
        [\<lparr>oid = 2, flds = [''name'' \<mapsto> VStr ''Bluey Heeler'']\<rparr>])"
  using delete_twice [of "[\<lparr>oid = 1, flds = [''name'' \<mapsto> VStr ''Bingo Heeler'']\<rparr>,
      \<lparr>oid = 2, flds = [''name'' \<mapsto> VStr ''Bluey Heeler'']\<rparr>]"
      "\<lparr>oid = 1, flds = [''name'' \<mapsto> VStr ''Bingo Heeler'']\<rparr>" utc_env
      "''000000000000000000000001''"] hex24_one
  by simp

section \<open>Schemas and bodies\<close>



lemma find_field_name:
  "find (\<lambda>f'. fname f' = n) sch = Some f \<Longrightarrow> f \<in> set sch \<and> fname f = n"
  by (induction sch) (auto split: if_splits)

lemma find_field_none:
  "find (\<lambda>f'. fname f' = n) sch = None \<Longrightarrow> n \<notin> fname ` set sch"
  by (induction sch) (auto split: if_splits)









lemma no_defaults: "k \<noteq> Students \<Longrightarrow> f \<in> set (schema k) \<Longrightarrow> dflt f = None"
  by (cases k) auto

lemma hydrate_plain: "k \<noteq> Students \<Longrightarrow> hydrate k d = d"
proof -
  assume k: "k \<noteq> Students"
  have "(case flds d n of
           Some v \<Rightarrow> Some v
         | None \<Rightarrow> (case find (\<lambda>f. fname f = n) (schema k) of
                       None \<Rightarrow> None | Some f \<Rightarrow> dflt f)) = flds d n" for n
    using no_defaults [OF k] find_field_name [of n "schema k"]
    by (auto split: option.splits)
  then show ?thesis by (simp add: hydrate_def)
qed


section \<open>Create, then read\<close>





section \<open>Searching events by day\<close>

lemmas iso_defs = iso_parse_def iso_date_only_def ymd_strict_def ymd_ok_def iso_time_z_def
  digit_val_def days_in_month_def days_from_civil_def

lemma parse_0511_start: "iso_parse ''2023-11-05T00:00:00Z'' = Some 1699142400000"
  by (simp add: iso_defs)

lemma parse_0511_end: "iso_parse ''2023-11-05T23:59:59Z'' = Some 1699228799000"
  by (simp add: iso_defs)

lemma parse_11_start: "iso_parse ''2023-11T00:00:00Z'' = Some 1698796800000"
  by (simp add: iso_defs)

lemma parse_11_end: "iso_parse ''2023-11T23:59:59Z'' = Some 1698883199000"
  by (simp add: iso_defs)

lemma parse_0611_start: "iso_parse ''2023-11-06T00:00:00Z'' = Some 1699228800000"
  by (simp add: iso_defs)

lemma parse_0611_end: "iso_parse ''2023-11-06T23:59:59Z'' = Some 1699315199000"
  by (simp add: iso_defs)

lemma last_second_ms: "utc_ms 2023 11 5 23 59 59 0 = 1699228799000"
  by (simp add: utc_ms_def days_from_civil_def)

lemma first_of_month_ms: "utc_ms 2023 11 1 10 0 0 0 = 1698832800000"
  by (simp add: utc_ms_def days_from_civil_def)

lemma strict_0511: "ymd_strict ''2023-11-05'' = Some (2023, 11, 5)"
  by (simp add: iso_defs)

lemma day_0511: "days_from_civil 2023 11 5 = 19666"
  by (simp add: days_from_civil_def)

text \<open>
  Claim C1. The claim asks that a search by day returns the records of the whole UTC day,
  and in particular that an event at 2023-11-05T23:59:59Z is returned by
  \<open>date=2023-11-05\<close> and not by \<open>date=2023-11-06\<close>. The events handler bounds the day
  by \<open>$lt\<close> 23:59:59, so on a collection holding just that event it answers 404 for both
  days; the appointments handler, on a server in UTC, returns the document for the first.
\<close>

theorem events_search_misses_last_second:
  "new_Date e ''2023-11-05T23:59:59Z'' = Some (utc_ms 2023 11 5 23 59 59 0) \<and>
   get_search e Events (Some ''2023-11-05'') [event_last_second]
     = Response 404 (JsonError NoneFound) \<and>
   get_search e Events (Some ''2023-11-06'') [event_last_second]
     = Response 404 (JsonError NoneFound) \<and>
   get_search utc_env Appointments (Some ''2023-11-05'') [event_last_second]
     = Response 200 (JsonDocs [event_last_second])"
  by (simp add: events_search_def new_Date_def parse_0511_start parse_0511_end
      parse_0611_start parse_0611_end find_range_def search_respond_def event_last_second_def last_second_ms
      appointments_search_def moment_strict_valid_def moment_startOf_day_def
      moment_endOf_day_def strict_0511 day_0511 utc_env_def hydrate_plain)

text \<open>
  Claim C3. The claim asks for 400 whenever the value is present and is not a
  \<open>YYYY-MM-DD\<close> date. The events handler does not check the format: \<open>2023-11\<close> gives
  two valid dates once the time is appended, and the search answers 200 with the events
  of the first day of that month. The appointments handler refuses the same value.
\<close>

theorem events_search_accepts_year_month:
  "\<not> moment_strict_valid ''2023-11'' \<and>
   get_search e Events (Some ''2023-11'') [event_first_of_month]
     = Response 200 (JsonDocs [event_first_of_month]) \<and>
   get_search e Appointments (Some ''2023-11'') [event_first_of_month]
     = Response 400 (JsonError ParamRequired)"
  by (simp add: events_search_def new_Date_def parse_11_start parse_11_end
      find_range_def search_respond_def event_first_of_month_def first_of_month_ms
      moment_strict_valid_def ymd_strict_def appointments_search_def hydrate_plain)

section \<open>Creating without a required field\<close>

text \<open>
  Claim C2. The claim asks that a create payload lacking a required field is refused with
  400 and nothing is stored. Only the schema of the health professionals marks its paths
  as required: there the create is refused and the collection is unchanged. A user
  payload with no email is stored and answered with 201.
\<close>

theorem create_user_without_email:
  "post_create e Users g [''nome'' \<mapsto> JStr ''Caio Hobold''] []
     = (Response 201
          (JsonDoc \<lparr>oid = g, flds = doc_fields e (schema Users) [''nome'' \<mapsto> JStr ''Caio Hobold'']\<rparr>),
        [\<lparr>oid = g, flds = doc_fields e (schema Users) [''nome'' \<mapsto> JStr ''Caio Hobold'']\<rparr>]) \<and>
   doc_fields e (schema Users) [''nome'' \<mapsto> JStr ''Caio Hobold''] ''email'' = None \<and>
   post_create e ProfSaude g [''name'' \<mapsto> JStr ''Caio Hobold''] st
     = (Response 400 (JsonError (StoreMsg ValidationError)), st)"
  by (simp add: post_create_def save_def Let_def cast_failed_def cast_field_def required_missing_def
      doc_fields_def)

section \<open>Patterns and the strings they stand for\<close>

lemma lang_Nil: "w \<in> lang e [] \<longleftrightarrow> w = []"
  by simp

lemma lang_Once: "x \<in> lang e (Once a # r) \<longleftrightarrow> (\<exists>c w. x = c # w \<and> atom_ok e a c \<and> w \<in> lang e r)"
  by simp

lemma lang_Star:
  "x \<in> lang e (Star a # r) \<longleftrightarrow> (\<exists>u w. x = u @ w \<and> list_all (atom_ok e a) u \<and> w \<in> lang e r)"
  by simp

declare lang.simps [simp del]

lemma lang_Star_skip: "w \<in> lang e r \<Longrightarrow> w \<in> lang e (Star a # r)"
proof -
  assume "w \<in> lang e r"
  then have "w = [] @ w \<and> list_all (atom_ok e a) [] \<and> w \<in> lang e r" by simp
  then show ?thesis unfolding lang_Star by blast
qed

lemma lang_Star_step:
  "atom_ok e a c \<Longrightarrow> x \<in> lang e (Star a # r) \<Longrightarrow> c # x \<in> lang e (Star a # r)"
proof -
  assume ok: "atom_ok e a c" and "x \<in> lang e (Star a # r)"
  then obtain u w where x: "x = u @ w" and u: "list_all (atom_ok e a) u" and w: "w \<in> lang e r"
    unfolding lang_Star by blast
  from x ok u w have "c # x = (c # u) @ w \<and> list_all (atom_ok e a) (c # u) \<and> w \<in> lang e r"
    by simp
  then show ?thesis unfolding lang_Star by blast
qed

lemma lang_Star_cases:
  assumes "x \<in> lang e (Star a # r)"
  shows "x \<in> lang e r \<or> (\<exists>c y. x = c # y \<and> atom_ok e a c \<and> y \<in> lang e (Star a # r))"
proof -
  from assms obtain u w where x: "x = u @ w" and u: "list_all (atom_ok e a) u"
    and w: "w \<in> lang e r"
    unfolding lang_Star by blast
  show ?thesis
  proof (cases u)
    case Nil
    with x w show ?thesis by simp
  next
    case (Cons c u')
    with u have ok: "atom_ok e a c" and u': "list_all (atom_ok e a) u'" by simp_all
    from u' w have "u' @ w \<in> lang e (Star a # r)" unfolding lang_Star by blast
    with Cons x ok show ?thesis by simp
  qed
qed


lemma match_here_lang: "match_here e r s \<longleftrightarrow> (\<exists>w \<in> lang e r. prefix w s)"
proof (induction e r s rule: match_here.induct)
  case (1 e s)
  have "[] \<in> lang e []" by (simp add: lang_Nil)
  then have "\<exists>w \<in> lang e []. prefix w s" by (rule bexI [rotated]) simp
  then show ?case by simp
next
  case (2 e a r)
  have "[] \<notin> lang e (Once a # r)"
    by (simp add: lang_Once)
  then have "\<not> (\<exists>w \<in> lang e (Once a # r). prefix w [])"
    by auto
  then show ?case by simp
next
  case (3 e a r c s)
  have "(\<exists>w \<in> lang e (Once a # r). prefix w (c # s)) \<longleftrightarrow>
        atom_ok e a c \<and> (\<exists>w \<in> lang e r. prefix w s)"
  proof
    assume "\<exists>w \<in> lang e (Once a # r). prefix w (c # s)"
    then obtain x where "x \<in> lang e (Once a # r)" and px: "prefix x (c # s)" by blast
    then obtain c' w where "x = c' # w" and "atom_ok e a c'" and "w \<in> lang e r"
      by (auto simp: lang_Once)
    with px show "atom_ok e a c \<and> (\<exists>w \<in> lang e r. prefix w s)" by auto
  next
    assume "atom_ok e a c \<and> (\<exists>w \<in> lang e r. prefix w s)"
    then obtain w where ok: "atom_ok e a c" and w: "w \<in> lang e r" and p: "prefix w s"
      by blast
    from ok w have "c # w \<in> lang e (Once a # r)" by (simp add: lang_Once)
    moreover from p have "prefix (c # w) (c # s)" by simp
    ultimately show "\<exists>w \<in> lang e (Once a # r). prefix w (c # s)" by blast
  qed
  with 3 show ?case by simp
next
  case (4 e a r)
  have "(\<exists>w \<in> lang e (Star a # r). prefix w []) \<longleftrightarrow> (\<exists>w \<in> lang e r. prefix w [])"
  proof
    assume "\<exists>w \<in> lang e (Star a # r). prefix w []"
    then have "[] \<in> lang e (Star a # r)" by auto
    then have "[] \<in> lang e r" using lang_Star_cases by blast
    then show "\<exists>w \<in> lang e r. prefix w []" by auto
  next
    assume "\<exists>w \<in> lang e r. prefix w []"
    then have "[] \<in> lang e r" by auto
    then have "[] \<in> lang e (Star a # r)" by (rule lang_Star_skip)
    then show "\<exists>w \<in> lang e (Star a # r). prefix w []" by auto
  qed
  with 4 show ?case by simp
next
  case (5 e a r c s)
  have "(\<exists>w \<in> lang e (Star a # r). prefix w (c # s)) \<longleftrightarrow>
        (\<exists>w \<in> lang e r. prefix w (c # s)) \<or>
        (atom_ok e a c \<and> (\<exists>w \<in> lang e (Star a # r). prefix w s))"
  proof
    assume "\<exists>w \<in> lang e (Star a # r). prefix w (c # s)"
    then obtain x where x: "x \<in> lang e (Star a # r)" and p: "prefix x (c # s)" by blast
    from lang_Star_cases [OF x]
    show "(\<exists>w \<in> lang e r. prefix w (c # s)) \<or>
        (atom_ok e a c \<and> (\<exists>w \<in> lang e (Star a # r). prefix w s))"
    proof
      assume "x \<in> lang e r"
      with p show ?thesis by blast
    next
      assume "\<exists>c' y. x = c' # y \<and> atom_ok e a c' \<and> y \<in> lang e (Star a # r)"
      then obtain c' y where "x = c' # y" and "atom_ok e a c'" and "y \<in> lang e (Star a # r)"
        by blast
      with p show ?thesis by auto
    qed
  next
    assume "(\<exists>w \<in> lang e r. prefix w (c # s)) \<or>
        (atom_ok e a c \<and> (\<exists>w \<in> lang e (Star a # r). prefix w s))"
    then show "\<exists>w \<in> lang e (Star a # r). prefix w (c # s)"
    proof
      assume "\<exists>w \<in> lang e r. prefix w (c # s)"
      then show ?thesis using lang_Star_skip by blast
    next
      assume "atom_ok e a c \<and> (\<exists>w \<in> lang e (Star a # r). prefix w s)"
      then obtain x where ok: "atom_ok e a c" and x: "x \<in> lang e (Star a # r)"
        and p: "prefix x s" by blast
      from ok x have "c # x \<in> lang e (Star a # r)" by (rule lang_Star_step)
      moreover from p have "prefix (c # x) (c # s)" by simp
      ultimately show ?thesis by blast
    qed
  qed
  with 5 show ?case by auto
qed

lemma rx_search_lang: "rx_search e r s \<longleftrightarrow> (\<exists>w \<in> lang e r. sublist w s)"
  by (induction s) (auto simp: match_here_lang sublist_Cons_right)

section \<open>Searching by name\<close>

lemma name_kind_search: "name_kind k \<Longrightarrow> get_search e k q st = name_search e k q st"
  by (cases k) simp_all

lemma find_regex_lang:
  assumes "parse_rx v = Some r"
  shows "find_regex e k f v st = Inr (map (hydrate k) (filter (lang_match e r f) st))"
proof -
  have "(case flds d f of Some (VStr s) \<Rightarrow> rx_search e r s | _ \<Rightarrow> False) = lang_match e r f d"
    for d
    by (simp add: lang_match_def rx_search_lang split: option.splits fval.splits)
  then have "filter (\<lambda>d. case flds d f of Some (VStr s) \<Rightarrow> rx_search e r s | _ \<Rightarrow> False) st
      = filter (lang_match e r f) st"
    by simp
  with assms show ?thesis by (simp add: find_regex_def regex_i_def)
qed

lemma name_search_lang:
  assumes "name_kind k" and "v \<noteq> []" and "parse_rx v = Some r"
  shows "get_search e k (Some v) st =
           (if filter (lang_match e r (search_param k)) st = []
            then Response 404 (JsonError NoneFound)
            else Response 200
                   (JsonDocs (map (hydrate k) (filter (lang_match e r (search_param k)) st))))"
  using assms(2)
  by (simp add: name_kind_search [OF assms(1)] name_search_def
      find_regex_lang [OF assms(3)] search_respond_def)

lemma parse_dot: "parse_rx ''.'' = Some [Once AnyChar]"
  by (simp add: atom_of_def)

lemma dot_lang: "c \<noteq> CHR 0x0A \<Longrightarrow> [c] \<in> lang e [Once AnyChar]"
  by (simp add: lang_Once lang_Nil)

lemma member_sublist: "c \<in> set n \<Longrightarrow> sublist [c] n"
proof -
  assume "c \<in> set n"
  then obtain ys zs where "n = ys @ [c] @ zs" by (auto dest: split_list)
  then show ?thesis unfolding sublist_def by blast
qed

text \<open>
  Claim C5. The name searches pass the query value to the database as a regular
  expression, not as a literal. For every kind searched by name and every non-empty
  value that is a pattern of the fragment, the search returns exactly the stored records
  whose name has a part among the strings the pattern stands for, and answers 404 when
  there is none. In particular the value \<open>.\<close> returns every stored record whose name
  has a character other than a line feed, also when the name contains no dot, that is,
  does not contain the value as a substring.
\<close>

theorem name_search_is_regex_search:
  assumes "name_kind k"
  shows "(\<forall>v r. v \<noteq> [] \<and> parse_rx v = Some r \<longrightarrow>
            get_search e k (Some v) st =
              (if filter (lang_match e r (search_param k)) st = []
               then Response 404 (JsonError NoneFound)
               else Response 200
                      (JsonDocs (map (hydrate k)
                         (filter (lang_match e r (search_param k)) st))))) \<and>
         (\<forall>d n c. d \<in> set st \<and> flds d (search_param k) = Some (VStr n) \<and>
              c \<in> set n \<and> c \<noteq> CHR 0x0A \<and> CHR ''.'' \<notin> set n \<longrightarrow>
            (\<exists>ds. get_search e k (Some ''.'') st = Response 200 (JsonDocs ds) \<and>
                  hydrate k d \<in> set ds \<and> \<not> sublist ''.'' n))"
proof (intro conjI allI impI)
  fix v r
  assume "v \<noteq> [] \<and> parse_rx v = Some r"
  then show "get_search e k (Some v) st =
      (if filter (lang_match e r (search_param k)) st = []
       then Response 404 (JsonError NoneFound)
       else Response 200
              (JsonDocs (map (hydrate k) (filter (lang_match e r (search_param k)) st))))"
    using name_search_lang [OF assms] by blast
next
  fix d n c
  assume a: "d \<in> set st \<and> flds d (search_param k) = Some (VStr n) \<and>
      c \<in> set n \<and> c \<noteq> CHR 0x0A \<and> CHR ''.'' \<notin> set n"
  let ?ds = "filter (lang_match e [Once AnyChar] (search_param k)) st"
  from a have "[c] \<in> lang e [Once AnyChar]" and "sublist [c] n"
    by (simp_all add: dot_lang member_sublist)
  then have "\<exists>w \<in> lang e [Once AnyChar]. sublist w n" by blast
  with a have "lang_match e [Once AnyChar] (search_param k) d"
    by (simp add: lang_match_def)
  with a have mem: "d \<in> set ?ds" by simp
  then have ne: "?ds \<noteq> []" by (metis empty_iff empty_set)
  have "''.'' \<noteq> []" by simp
  from name_search_lang [OF assms this parse_dot] ne
  have resp: "get_search e k (Some ''.'') st = Response 200 (JsonDocs (map (hydrate k) ?ds))"
    by simp
  from mem have "hydrate k d \<in> hydrate k ` set ?ds" by (rule imageI)
  then have "hydrate k d \<in> set (map (hydrate k) ?ds)" by (simp only: set_map)
  moreover from a have "\<not> sublist ''.'' n" by (auto simp: sublist_def)
  ultimately show "\<exists>ds. get_search e k (Some ''.'') st = Response 200 (JsonDocs ds) \<and>
      hydrate k d \<in> set ds \<and> \<not> sublist ''.'' n"
    using resp by blast
qed

lemma parse_a_dot_a:
  "parse_rx ''a.a'' = Some [Once (Lit CHR ''a''), Once AnyChar, Once (Lit CHR ''a'')]"
  by (simp add: atom_of_def is_meta_def)

lemma a_dot_a_selects:
  "filter (lang_match utc_env [Once (Lit CHR ''a''), Once AnyChar, Once (Lit CHR ''a'')]
             (search_param Teachers)) [teacher_ana, teacher_bia] = [teacher_ana]"
  by (simp add: lang_match_def rx_search_lang [symmetric] teacher_ana_def teacher_bia_def
      fold_case_def to_lower_def)

theorem name_search_is_regex_search_witness:
  "get_search utc_env Teachers (Some ''a.a'') [teacher_ana, teacher_bia]
     = Response 200 (JsonDocs [teacher_ana]) \<and>
   \<not> sublist ''a.a'' ''Ana''"
proof -
  have k: "name_kind Teachers" by simp
  have "''a.a'' \<noteq> [] \<and>
      parse_rx ''a.a'' = Some [Once (Lit CHR ''a''), Once AnyChar, Once (Lit CHR ''a'')]"
    by (simp only: parse_a_dot_a) simp
  with name_search_is_regex_search [OF k, of utc_env "[teacher_ana, teacher_bia]"]
  have "get_search utc_env Teachers (Some ''a.a'') [teacher_ana, teacher_bia] =
      (if filter (lang_match utc_env [Once (Lit CHR ''a''), Once AnyChar, Once (Lit CHR ''a'')]
                    (search_param Teachers)) [teacher_ana, teacher_bia] = []
       then Response 404 (JsonError NoneFound)
       else Response 200 (JsonDocs (map (hydrate Teachers)
              (filter (lang_match utc_env
                         [Once (Lit CHR ''a''), Once AnyChar, Once (Lit CHR ''a'')]
                         (search_param Teachers)) [teacher_ana, teacher_bia]))))"
    by blast
  then have "get_search utc_env Teachers (Some ''a.a'') [teacher_ana, teacher_bia]
      = Response 200 (JsonDocs [teacher_ana])"
    by (simp only: a_dot_a_selects) (simp add: hydrate_plain)
  moreover have "\<not> sublist ''a.a'' ''Ana''"
    by (simp add: sublist_Cons_right)
  ultimately show ?thesis by simp
qed

lemma parse_star:
  "parse_rx ''ab*c'' = Some [Once (Lit CHR ''a''), Star (Lit CHR ''b''), Once (Lit CHR ''c'')]"
  by (simp add: atom_of_def is_meta_def)

lemma search_star:
  "\<not> rx_search e [Once (Lit CHR ''a''), Star (Lit CHR ''b''), Once (Lit CHR ''c'')] ''ab*c''"
  by (simp add: fold_case_def to_lower_def)

text \<open>
  Claim C10. The claim asks that every stored record whose name contains the search
  value up to letter case is returned. The handlers hand the value to the database as a
  pattern without escaping it: when the only student is named \<open>ab*c\<close> and the value is
  \<open>ab*c\<close>, the name contains the value and the search answers 404.
\<close>

theorem star_value_misses_its_own_name:
  "ci_contains e ''ab*c'' ''ab*c'' \<and>
   get_search e Students (Some ''ab*c'') [student_star]
     = Response 404 (JsonError NoneFound)"
proof -
  have "ci_contains e ''ab*c'' ''ab*c''"
    by (simp add: ci_contains_def)
  moreover have "regex_i e ''ab*c''
      = Some (rx_search e [Once (Lit CHR ''a''), Star (Lit CHR ''b''), Once (Lit CHR ''c'')])"
    by (simp only: regex_i_def parse_star option.case)
  then have "get_search e Students (Some ''ab*c'') [student_star]
      = Response 404 (JsonError NoneFound)"
    using search_star [of e]
    by (simp add: name_search_def find_regex_def search_respond_def student_star_def)
  ultimately show ?thesis by simp
qed

section \<open>Partial updates\<close>

lemma hydrate_oid: "oid (hydrate k d) = oid d"
  by (simp add: hydrate_def)












section \<open>The statuses of a search\<close>
































end
